theory Spec2Isabelle
  imports Main "HOL-Library.Word" "HOL-Library.Sublist"
begin

unbundle bit_operations_syntax

section \<open>JavaScript values and the platform operations the services use\<close>

text \<open>
  The request body that Express hands to the middleware and to the controller is the
  result of \<^verbatim>\<open>JSON.parse\<close>: a tree of objects, arrays, strings, numbers, booleans
  and \<^verbatim>\<open>null\<close>. Reading a property that is not there gives \<^verbatim>\<open>undefined\<close>, so
  the value type has that constructor too. An object is the list of its own properties in
  property order. Strings are sequences of code units below 256 (\<^typ>\<open>char\<close>), numbers
  are the integers.
\<close>

datatype jsval =
    Undefined
  | Null
  | Bool bool
  | Num int
  | Str string
  | Arr "jsval list"
  | Obj "(string \<times> jsval) list"

datatype error = TypeError | DataError

text \<open>Sequencing of a computation that may throw: the first exception wins.\<close>

definition andThen :: "error + 'a \<Rightarrow> ('a \<Rightarrow> error + 'b) \<Rightarrow> error + 'b" where
  "andThen m f = (case m of Inl e \<Rightarrow> Inl e | Inr x \<Rightarrow> f x)"

text \<open>Decimal rendering of an integer, as \<^verbatim>\<open>Number.prototype.toString\<close> gives it for
  the safe integers.\<close>

fun digits :: "nat \<Rightarrow> string" where
  "digits n = (if n < 10 then [''0123456789'' ! n]
               else digits (n div 10) @ [''0123456789'' ! (n mod 10)])"

declare digits.simps [simp del]

definition numberToString :: "int \<Rightarrow> string" where
  "numberToString i = (if i < 0 then CHR ''-'' # digits (nat (- i)) else digits (nat i))"

text \<open>
  \<^verbatim>\<open>ToString\<close>, which a template literal applies to each \<^verbatim>\<open>${...}\<close>. An array is
  joined with commas, with \<^verbatim>\<open>null\<close> and \<^verbatim>\<open>undefined\<close> elements rendered empty. A
  plain object renders through \<^verbatim>\<open>Object.prototype.toString\<close>; when the parsed object
  has an own property named \<^verbatim>\<open>toString\<close> (never callable, coming from JSON) the
  conversion finds no primitive and throws.
\<close>

fun toString :: "jsval \<Rightarrow> error + string"
  and arrayJoin :: "jsval list \<Rightarrow> error + string" where
  "toString Undefined = Inr ''undefined''"
| "toString Null = Inr ''null''"
| "toString (Bool b) = Inr (if b then ''true'' else ''false'')"
| "toString (Num i) = Inr (numberToString i)"
| "toString (Str s) = Inr s"
| "toString (Arr xs) = arrayJoin xs"
| "toString (Obj kvs) =
     (if ''toString'' \<in> set (map fst kvs) then Inl TypeError else Inr ''[object Object]'')"
| "arrayJoin [] = Inr []"
| "arrayJoin (x # xs) =
     andThen (if x = Undefined \<or> x = Null then Inr [] else toString x) (\<lambda>s.
       if xs = [] then Inr s
       else andThen (arrayJoin xs) (\<lambda>r. Inr (s @ '','' @ r)))"

text \<open>
  Reading a property \<^verbatim>\<open>v.k\<close>, for the property names the services read
  (\<^verbatim>\<open>action\<close>, \<^verbatim>\<open>sender\<close>, \<^verbatim>\<open>login\<close>, ...), none of which a primitive or an
  array has: on \<^verbatim>\<open>undefined\<close> and \<^verbatim>\<open>null\<close> it throws a TypeError, on an object it
  gives the own property or \<^verbatim>\<open>undefined\<close>, on anything else \<^verbatim>\<open>undefined\<close>.
\<close>

definition getProp :: "jsval \<Rightarrow> string \<Rightarrow> error + jsval" where
  "getProp v k =
     (case v of
        Undefined \<Rightarrow> Inl TypeError
      | Null \<Rightarrow> Inl TypeError
      | Obj kvs \<Rightarrow> Inr (case map_of kvs k of None \<Rightarrow> Undefined | Some x \<Rightarrow> x)
      | _ \<Rightarrow> Inr Undefined)"

text \<open>
  \<^verbatim>\<open>JSON.stringify\<close>: the compact serialisation, with no whitespace between tokens.
  Its result is \<^verbatim>\<open>undefined\<close> (here \<open>None\<close>) for \<^verbatim>\<open>undefined\<close>; inside an
  array \<^verbatim>\<open>undefined\<close> is written \<^verbatim>\<open>null\<close>, inside an object the property is left
  out.
\<close>

definition hexDigit :: "nat \<Rightarrow> char" where
  "hexDigit n = ''0123456789abcdef'' ! (n mod 16)"

definition quoteChar :: "char \<Rightarrow> string" where
  "quoteChar c =
     (if c = CHR 0x22 then [CHR 0x5C, CHR 0x22]
      else if c = CHR 0x5C then [CHR 0x5C, CHR 0x5C]
      else if c = CHR 0x08 then [CHR 0x5C, CHR ''b'']
      else if c = CHR 0x09 then [CHR 0x5C, CHR ''t'']
      else if c = CHR 0x0A then [CHR 0x5C, CHR ''n'']
      else if c = CHR 0x0C then [CHR 0x5C, CHR ''f'']
      else if c = CHR 0x0D then [CHR 0x5C, CHR ''r'']
      else if (of_char c :: nat) < 32
        then [CHR 0x5C, CHR ''u'', CHR ''0'', CHR ''0'',
              hexDigit (of_char c div 16), hexDigit (of_char c)]
      else [c])"

definition quote :: "string \<Rightarrow> string" where
  "quote s = CHR 0x22 # concat (map quoteChar s) @ [CHR 0x22]"

fun joinComma :: "string list \<Rightarrow> string" where
  "joinComma [] = []"
| "joinComma [s] = s"
| "joinComma (s # t # ss) = s @ CHR '','' # joinComma (t # ss)"

fun stringify :: "jsval \<Rightarrow> string option"
  and stringifyElements :: "jsval list \<Rightarrow> string list"
  and stringifyMembers :: "(string \<times> jsval) list \<Rightarrow> string list" where
  "stringify Undefined = None"
| "stringify Null = Some ''null''"
| "stringify (Bool b) = Some (if b then ''true'' else ''false'')"
| "stringify (Num i) = Some (numberToString i)"
| "stringify (Str s) = Some (quote s)"
| "stringify (Arr xs) = Some (CHR ''['' # joinComma (stringifyElements xs) @ '']'')"
| "stringify (Obj kvs) = Some (CHR ''{'' # joinComma (stringifyMembers kvs) @ ''}'')"
| "stringifyElements [] = []"
| "stringifyElements (x # xs) =
     (case stringify x of None \<Rightarrow> ''null'' | Some s \<Rightarrow> s) # stringifyElements xs"
| "stringifyMembers [] = []"
| "stringifyMembers (kv # kvs) =
     (case stringify (snd kv) of
        None \<Rightarrow> stringifyMembers kvs
      | Some s \<Rightarrow> (quote (fst kv) @ CHR '':'' # s) # stringifyMembers kvs)"

section \<open>GitHubService: the per-event summarizers\<close>

text \<open>
  \<^verbatim>\<open>onStar\<close> destructures \<^verbatim>\<open>action\<close>, \<^verbatim>\<open>sender\<close> and \<^verbatim>\<open>repository\<close> from the
  payload and returns
  \<^verbatim>\<open>`User ${sender.login} ${action} star on ${repository.full_name}`\<close>.
  A summarizer returns its message or throws.
\<close>

definition onStar :: "jsval \<Rightarrow> error + string" where
  "onStar payload =
     andThen (getProp payload ''action'') (\<lambda>action.
     andThen (getProp payload ''sender'') (\<lambda>sender.
     andThen (getProp payload ''repository'') (\<lambda>repository.
     andThen (andThen (getProp sender ''login'') toString) (\<lambda>s1.
     andThen (toString action) (\<lambda>s2.
     andThen (andThen (getProp repository ''full_name'') toString) (\<lambda>s3.
       Inr (''User '' @ s1 @ '' '' @ s2 @ '' star on '' @ s3)))))))"

text \<open>
  \<^verbatim>\<open>onIssue\<close> destructures \<^verbatim>\<open>action\<close> and \<^verbatim>\<open>issue\<close> and branches on the action
  with \<^verbatim>\<open>===\<close>.
\<close>

definition onIssue :: "jsval \<Rightarrow> error + string" where
  "onIssue payload =
     andThen (getProp payload ''action'') (\<lambda>action.
     andThen (getProp payload ''issue'') (\<lambda>issue.
       if action = Str ''opened'' then
         andThen (andThen (getProp issue ''title'') toString) (\<lambda>t.
           Inr (''An issue was opened with this title '' @ t))
       else if action = Str ''closed'' then
         andThen (andThen (andThen (getProp issue ''user'') (\<lambda>u. getProp u ''login'')) toString)
           (\<lambda>l. Inr (''An issue was closed by '' @ l))
       else if action = Str ''reopened'' then
         andThen (andThen (andThen (getProp issue ''user'') (\<lambda>u. getProp u ''login'')) toString)
           (\<lambda>l. Inr (''An issue was reopened by '' @ l))
       else
         andThen (toString action) (\<lambda>a.
           Inr (''Unhandled action for the issue event '' @ a))))"

section \<open>DiscordService: the notifier\<close>

text \<open>
  The outcome of the single \<^verbatim>\<open>fetch\<close> is the environment's answer to the posted body:
  the call throws (a network error) or gives a response with a status code.
  \<^verbatim>\<open>notify\<close> catches the throw, so its promise always resolves, to \<^verbatim>\<open>true\<close> when
  \<^verbatim>\<open>resp.ok\<close> (a status from 200 to 299) and to \<^verbatim>\<open>false\<close> otherwise. \<open>Inl\<close> would
  be a rejected promise.
\<close>

datatype fetch_result = NetworkError | HttpResponse nat

definition ok :: "nat \<Rightarrow> bool" where
  "ok status = (200 \<le> status \<and> status \<le> 299)"

definition notify :: "(string option \<Rightarrow> fetch_result) \<Rightarrow> string \<Rightarrow> error + bool" where
  "notify fetch message =
     (let body = Obj [(''content'', Str message)] in
      case fetch (stringify body) of
        NetworkError \<Rightarrow> Inr False
      | HttpResponse status \<Rightarrow> if \<not> ok status then Inr False else Inr True)"

section \<open>GitHubController: the webhook handler\<close>

text \<open>
  A request, as the middleware and the handler see it after \<^verbatim>\<open>express.json()\<close>:
  the two headers they read (absent is \<open>None\<close>) and the parsed body. A response is a
  status code and a body, or the page of Express's default error handler with the status
  of the error passed to it (the text of that page is left out). The trace records, in
  order, the event type the handler's \<^verbatim>\<open>switch\<close> was entered with and the message
  handed to the notifier.
\<close>

record request =
  signature_header :: "string option"
  event_header :: "string option"
  body :: jsval

datatype response = Response nat string | ErrorPage nat

datatype effect = Dispatched string | Notified string

text \<open>The \<^verbatim>\<open>switch (githubEvent)\<close> of the handler.\<close>

definition dispatch :: "string \<Rightarrow> jsval \<Rightarrow> error + string" where
  "dispatch githubEvent payload =
     (if githubEvent = ''star'' then onStar payload
      else if githubEvent = ''issues'' then onIssue payload
      else Inr (''Unknown event '' @ githubEvent))"

text \<open>\<^verbatim>\<open>res.json(v)\<close> sends \<^verbatim>\<open>JSON.stringify(v)\<close>.\<close>

definition json :: "nat \<Rightarrow> jsval \<Rightarrow> response" where
  "json code v = Response code (case stringify v of None \<Rightarrow> [] | Some s \<Rightarrow> s)"

text \<open>
  \<^verbatim>\<open>webHookHandler\<close>: the event type is the \<^verbatim>\<open>x-github-event\<close> header or
  \<^verbatim>\<open>"unknown"\<close>; the message comes from the switch (an exception thrown there leaves the
  handler, \<open>Inl\<close>); then
  \<^verbatim>\<open>notify(message).then(() => res.status(202).send('Accepted')).catch(() => res.status(500).json(...))\<close>:
  the \<^verbatim>\<open>then\<close> callback ignores the value the promise resolved to, the \<^verbatim>\<open>catch\<close>
  callback runs on a rejected promise.
\<close>

definition webHookHandler ::
    "(string option \<Rightarrow> fetch_result) \<Rightarrow> request \<Rightarrow> error + response \<times> effect list" where
  "webHookHandler fetch req =
     (let githubEvent = (case event_header req of None \<Rightarrow> ''unknown'' | Some e \<Rightarrow> e);
          payload = body req
      in andThen (dispatch githubEvent payload) (\<lambda>message.
           Inr (case notify fetch message of
                  Inr delivered \<Rightarrow> Response 202 ''Accepted''
                | Inl err \<Rightarrow> json 500 (Obj [(''error'', Str ''internal server error'')]),
                [Dispatched githubEvent, Notified message])))"

section \<open>HMAC-SHA256\<close>

text \<open>
  The middleware asks the platform (\<^verbatim>\<open>crypto.subtle\<close>) for HMAC with SHA-256. Both
  are written out here over bytes: SHA-256 as in FIPS 180-4, HMAC as in RFC 2104 with the
  64-byte block of SHA-256.
\<close>

type_synonym byte = "8 word"
type_synonym word32 = "32 word"
type_synonym sha_state =
  "word32 \<times> word32 \<times> word32 \<times> word32 \<times> word32 \<times> word32 \<times> word32 \<times> word32"

text \<open>The round constants, eight rounds to a row.\<close>

definition K256 :: "word32 list" where
  "K256 = concat
    [ [0x428a2f98, 0x71374491, 0xb5c0fbcf, 0xe9b5dba5, 0x3956c25b, 0x59f111f1, 0x923f82a4, 0xab1c5ed5],
     [0xd807aa98, 0x12835b01, 0x243185be, 0x550c7dc3, 0x72be5d74, 0x80deb1fe, 0x9bdc06a7, 0xc19bf174],
     [0xe49b69c1, 0xefbe4786, 0x0fc19dc6, 0x240ca1cc, 0x2de92c6f, 0x4a7484aa, 0x5cb0a9dc, 0x76f988da],
     [0x983e5152, 0xa831c66d, 0xb00327c8, 0xbf597fc7, 0xc6e00bf3, 0xd5a79147, 0x06ca6351, 0x14292967],
     [0x27b70a85, 0x2e1b2138, 0x4d2c6dfc, 0x53380d13, 0x650a7354, 0x766a0abb, 0x81c2c92e, 0x92722c85],
     [0xa2bfe8a1, 0xa81a664b, 0xc24b8b70, 0xc76c51a3, 0xd192e819, 0xd6990624, 0xf40e3585, 0x106aa070],
     [0x19a4c116, 0x1e376c08, 0x2748774c, 0x34b0bcb5, 0x391c0cb3, 0x4ed8aa4a, 0x5b9cca4f, 0x682e6ff3],
     [0x748f82ee, 0x78a5636f, 0x84c87814, 0x8cc70208, 0x90befffa, 0xa4506ceb, 0xbef9a3f7, 0xc67178f2] ]"

definition H256 :: sha_state where
  "H256 = (0x6a09e667, 0xbb67ae85, 0x3c6ef372, 0xa54ff53a,
           0x510e527f, 0x9b05688c, 0x1f83d9ab, 0x5be0cd19)"

definition Ch :: "word32 \<Rightarrow> word32 \<Rightarrow> word32 \<Rightarrow> word32" where
  "Ch x y z = (x AND y) XOR (NOT x AND z)"

definition Maj :: "word32 \<Rightarrow> word32 \<Rightarrow> word32 \<Rightarrow> word32" where
  "Maj x y z = (x AND y) XOR (x AND z) XOR (y AND z)"

definition bsig0 :: "word32 \<Rightarrow> word32" where
  "bsig0 x = word_rotr 2 x XOR word_rotr 13 x XOR word_rotr 22 x"

definition bsig1 :: "word32 \<Rightarrow> word32" where
  "bsig1 x = word_rotr 6 x XOR word_rotr 11 x XOR word_rotr 25 x"

definition ssig0 :: "word32 \<Rightarrow> word32" where
  "ssig0 x = word_rotr 7 x XOR word_rotr 18 x XOR drop_bit 3 x"

definition ssig1 :: "word32 \<Rightarrow> word32" where
  "ssig1 x = word_rotr 17 x XOR word_rotr 19 x XOR drop_bit 10 x"

fun wordsOfBytes :: "byte list \<Rightarrow> word32 list" where
  "wordsOfBytes (a # b # c # d # bs) =
     (push_bit 24 (ucast a) OR push_bit 16 (ucast b) OR push_bit 8 (ucast c) OR ucast d)
       # wordsOfBytes bs"
| "wordsOfBytes bs = []"

definition bytesOfWord :: "word32 \<Rightarrow> byte list" where
  "bytesOfWord w = [ucast (drop_bit 24 w), ucast (drop_bit 16 w), ucast (drop_bit 8 w), ucast w]"

text \<open>The message schedule: the 16 words of the block, extended to 64.\<close>

fun schedule :: "nat \<Rightarrow> word32 list \<Rightarrow> word32 list" where
  "schedule 0 w = w"
| "schedule (Suc n) w =
     (let t = length w
      in schedule n (w @ [ssig1 (w ! (t - 2)) + w ! (t - 7) + ssig0 (w ! (t - 15)) + w ! (t - 16)]))"

fun rounds :: "word32 list \<Rightarrow> word32 list \<Rightarrow> sha_state \<Rightarrow> sha_state" where
  "rounds (k # ks) (w # ws) (a, b, c, d, e, f, g, h) =
     (let t1 = h + bsig1 e + Ch e f g + k + w;
          t2 = bsig0 a + Maj a b c
      in rounds ks ws (t1 + t2, a, b, c, d + t1, e, f, g))"
| "rounds ks ws s = s"

fun addState :: "sha_state \<Rightarrow> sha_state \<Rightarrow> sha_state" where
  "addState (a, b, c, d, e, f, g, h) (a', b', c', d', e', f', g', h') =
     (a + a', b + b', c + c', d + d', e + e', f + f', g + g', h + h')"

definition compress :: "sha_state \<Rightarrow> byte list \<Rightarrow> sha_state" where
  "compress hs block = addState hs (rounds K256 (schedule 48 (wordsOfBytes block)) hs)"

fun digest :: "sha_state \<Rightarrow> byte list" where
  "digest (a, b, c, d, e, f, g, h) = concat (map bytesOfWord [a, b, c, d, e, f, g, h])"

definition pad :: "byte list \<Rightarrow> byte list" where
  "pad msg = msg @ 0x80 # replicate ((119 - length msg mod 64) mod 64) 0
               @ (let bits = (of_nat (8 * length msg) :: 64 word)
                  in map (\<lambda>i. ucast (drop_bit (8 * i) bits)) [7, 6, 5, 4, 3, 2, 1, 0])"

fun blocks :: "byte list \<Rightarrow> byte list list" where
  "blocks bs = (if length bs < 64 then [] else take 64 bs # blocks (drop 64 bs))"

declare blocks.simps [simp del]

definition sha256 :: "byte list \<Rightarrow> byte list" where
  "sha256 msg = digest (foldl compress H256 (blocks (pad msg)))"

definition hmac_sha256 :: "byte list \<Rightarrow> byte list \<Rightarrow> byte list" where
  "hmac_sha256 key msg =
     (let k = (if length key > 64 then sha256 key else key);
          k0 = k @ replicate (64 - length k) 0
      in sha256 (map (\<lambda>b. b XOR 0x5c) k0 @ sha256 (map (\<lambda>b. b XOR 0x36) k0 @ msg)))"

section \<open>GithubSha256Middleware: signature verification\<close>

text \<open>
  \<^verbatim>\<open>TextEncoder.encode\<close>: the UTF-8 bytes of a string, one byte for a code unit below
  128 and two for the others below 256; called with \<^verbatim>\<open>undefined\<close> it encodes the
  empty string.
\<close>

definition encodeChar :: "char \<Rightarrow> byte list" where
  "encodeChar c =
     (let n = (of_char c :: nat)
      in if n < 128 then [of_nat n] else [of_nat (192 + n div 64), of_nat (128 + n mod 64)])"

definition encode :: "string option \<Rightarrow> byte list" where
  "encode input = (case input of None \<Rightarrow> [] | Some s \<Rightarrow> concat (map encodeChar s))"

text \<open>\<^verbatim>\<open>String.prototype.split\<close> with a one-character separator.\<close>

fun split :: "char \<Rightarrow> string \<Rightarrow> string list" where
  "split sep [] = [] # []"
| "split sep (c # cs) =
     (if c = sep then [] # split sep cs
      else (case split sep cs of [] \<Rightarrow> [c] # [] | p # ps \<Rightarrow> (c # p) # ps))"

text \<open>Reading an array element: \<^verbatim>\<open>undefined\<close> when the index is out of range.\<close>

definition element :: "'a list \<Rightarrow> nat \<Rightarrow> 'a option" where
  "element xs i = (if i < length xs then Some (xs ! i) else None)"

text \<open>
  \<^verbatim>\<open>parseInt(str, 16)\<close>: leading white space is skipped, then an optional sign, then
  an optional \<^verbatim>\<open>0x\<close> or \<^verbatim>\<open>0X\<close>; the longest run of hexadecimal digits that follows
  is the value, and the rest of the string is ignored. With no digit the result is
  \<^verbatim>\<open>NaN\<close>, here \<open>None\<close>.
\<close>

definition isWhiteSpace :: "char \<Rightarrow> bool" where
  "isWhiteSpace c = ((of_char c :: nat) \<in> {9, 10, 11, 12, 13, 32, 160})"

definition hexValue :: "char \<Rightarrow> nat option" where
  "hexValue c =
     (let n = (of_char c :: nat)
      in if 48 \<le> n \<and> n \<le> 57 then Some (n - 48)
         else if 97 \<le> n \<and> n \<le> 102 then Some (n - 87)
         else if 65 \<le> n \<and> n \<le> 70 then Some (n - 55)
         else None)"

fun hexPrefix :: "string \<Rightarrow> nat list" where
  "hexPrefix [] = []"
| "hexPrefix (c # cs) = (case hexValue c of None \<Rightarrow> [] | Some v \<Rightarrow> v # hexPrefix cs)"

definition parseInt16 :: "string \<Rightarrow> int option" where
  "parseInt16 str =
     (let s = dropWhile isWhiteSpace str;
          sign = (if take 1 s = ''-'' then - 1 else 1);
          s1 = (if take 1 s = ''+'' \<or> take 1 s = ''-'' then drop 1 s else s);
          s2 = (if take 2 s1 = ''0x'' \<or> take 2 s1 = ''0X'' then drop 2 s1 else s1);
          z = hexPrefix s2
      in if z = [] then None
         else Some (sign * int (foldl (\<lambda>acc d. 16 * acc + d) 0 z)))"

text \<open>Storing a number into a \<^verbatim>\<open>Uint8Array\<close>: \<^verbatim>\<open>NaN\<close> becomes 0, an integer is
  taken modulo 256.\<close>

definition toUint8 :: "int option \<Rightarrow> byte" where
  "toUint8 b = (case b of None \<Rightarrow> 0 | Some v \<Rightarrow> of_int v)"

text \<open>
  \<^verbatim>\<open>hexToBytes\<close>. Reading \<^verbatim>\<open>hex.length\<close> of \<^verbatim>\<open>undefined\<close> throws a TypeError.
  \<^verbatim>\<open>new Uint8Array(hex.length / 2)\<close> has the length rounded down, all zero. The loop
  takes the string two characters at a time (\<^verbatim>\<open>hex.slice(i, i + 2)\<close>, one character
  at the end of a string of odd length) and stores each parsed chunk at the next index;
  a store past the end of a typed array does nothing, as \<open>bytes[index := b]\<close> does.
\<close>

function hexToBytesLoop :: "string \<Rightarrow> nat \<Rightarrow> nat \<Rightarrow> byte list \<Rightarrow> byte list" where
  "hexToBytesLoop hex i index bytes =
     (if i < length hex then
        (let c = take 2 (drop i hex);
             b = parseInt16 c
         in hexToBytesLoop hex (i + 2) (index + 1) (bytes[index := toUint8 b]))
      else bytes)"
  by pat_completeness auto
termination
  by (relation "measure (\<lambda>(hex, i, index, bytes). length hex - i)") auto

declare hexToBytesLoop.simps [simp del]

definition hexToBytes :: "string option \<Rightarrow> error + byte list" where
  "hexToBytes hex =
     (case hex of
        None \<Rightarrow> Inl TypeError
      | Some h \<Rightarrow>
          (let len = length h div 2;
               bytes = replicate len 0
           in Inr (hexToBytesLoop h 0 0 bytes)))"

text \<open>
  \<^verbatim>\<open>crypto.subtle.importKey('raw', keyBytes, HMAC/SHA-256, ...)\<close> throws a DataError for
  a key of length zero and gives the key otherwise.
  \<^verbatim>\<open>crypto.subtle.verify('HMAC', key, signature, data)\<close> computes the HMAC of the data
  and answers whether it equals the signature.
\<close>

definition importKey :: "byte list \<Rightarrow> error + byte list" where
  "importKey keyBytes = (if keyBytes = [] then Inl DataError else Inr keyBytes)"

definition subtleVerify :: "byte list \<Rightarrow> byte list \<Rightarrow> byte list \<Rightarrow> bool" where
  "subtleVerify key signature dataBytes = (hmac_sha256 key dataBytes = signature)"

text \<open>
  \<^verbatim>\<open>verifySignature\<close>: first the body of its \<^verbatim>\<open>try\<close> block, which may throw, then
  the function itself, whose \<^verbatim>\<open>catch\<close> turns every exception into \<^verbatim>\<open>false\<close>.
\<close>

definition verifySignatureTry :: "string \<Rightarrow> string \<Rightarrow> string option \<Rightarrow> error + bool" where
  "verifySignatureTry secret header payload =
     (let parts = split CHR ''='' header;
          sigHex = element parts 1;
          keyBytes = encode (Some secret)
      in andThen (importKey keyBytes) (\<lambda>key.
         andThen (hexToBytes sigHex) (\<lambda>sigBytes.
           (let dataBytes = encode payload
            in Inr (subtleVerify key sigBytes dataBytes)))))"

definition verifySignature :: "string \<Rightarrow> string \<Rightarrow> string option \<Rightarrow> bool" where
  "verifySignature secret header payload =
     (case verifySignatureTry secret header payload of
        Inr equal \<Rightarrow> equal
      | Inl err \<Rightarrow> False)"




section \<open>express.json(): from the raw body to the parsed body\<close>

text \<open>
  \<^verbatim>\<open>main\<close> installs \<^verbatim>\<open>express.json()\<close> before the signature middleware, so what the
  middleware finds in \<^verbatim>\<open>req.body\<close> is the raw body after \<^verbatim>\<open>JSON.parse\<close>. The
  parser below covers JSON texts whose numbers are integers and whose strings hold code
  units below 256; it answers \<open>None\<close> for any other text. White space between tokens
  is skipped. An object keeps one property per key (a repeated key overwrites the value
  in place) and lists the keys that are array indices first, in ascending order, as
  JavaScript objects do. The recursion is bounded by a counter that starts above the
  length of the text.
\<close>

definition isJsonSpace :: "char \<Rightarrow> bool" where
  "isJsonSpace c = ((of_char c :: nat) \<in> {9, 10, 13, 32})"

definition skipSpace :: "string \<Rightarrow> string" where
  "skipSpace s = dropWhile isJsonSpace s"

definition isDigit :: "char \<Rightarrow> bool" where
  "isDigit c = (48 \<le> (of_char c :: nat) \<and> (of_char c :: nat) \<le> 57)"

definition decimalValue :: "string \<Rightarrow> nat" where
  "decimalValue ds = foldl (\<lambda>acc d. 10 * acc + (of_char d - 48)) 0 ds"

definition unescape :: "char \<Rightarrow> char option" where
  "unescape e =
     (if e = CHR 0x22 \<or> e = CHR 0x5C \<or> e = CHR ''/'' then Some e
      else if e = CHR ''b'' then Some (CHR 0x08)
      else if e = CHR ''f'' then Some (CHR 0x0C)
      else if e = CHR ''n'' then Some (CHR 0x0A)
      else if e = CHR ''r'' then Some (CHR 0x0D)
      else if e = CHR ''t'' then Some (CHR 0x09)
      else None)"

definition unicodeEscape :: "string \<Rightarrow> char option" where
  "unicodeEscape hs =
     (case map hexValue hs of
        [Some a, Some b, Some c, Some d] \<Rightarrow>
          if a = 0 \<and> b = 0 then Some (char_of (16 * c + d)) else None
      | _ \<Rightarrow> None)"

fun parseChars :: "string \<Rightarrow> (string \<times> string) option" where
  "parseChars [] = None"
| "parseChars (c # cs) =
     (if c = CHR 0x22 then Some ([], cs)
      else if c = CHR 0x5C then
        (case cs of
           [] \<Rightarrow> None
         | e # r \<Rightarrow>
             if e = CHR ''u'' then
               (case unicodeEscape (take 4 r) of
                  None \<Rightarrow> None
                | Some d \<Rightarrow> map_option (\<lambda>(s, rest). (d # s, rest)) (parseChars (drop 4 r)))
             else
               (case unescape e of
                  None \<Rightarrow> None
                | Some d \<Rightarrow> map_option (\<lambda>(s, rest). (d # s, rest)) (parseChars r)))
      else if (of_char c :: nat) < 32 then None
      else map_option (\<lambda>(s, rest). (c # s, rest)) (parseChars cs))"

definition parseNumber :: "string \<Rightarrow> (jsval \<times> string) option" where
  "parseNumber s =
     (let negative = (take 1 s = ''-'');
          s1 = (if negative then drop 1 s else s);
          ds = takeWhile isDigit s1;
          rest = dropWhile isDigit s1
      in if ds = [] \<or> (1 < length ds \<and> take 1 ds = ''0'') then None
         else if take 1 rest = ''.'' \<or> take 1 rest = ''e'' \<or> take 1 rest = ''E'' then None
         else Some (Num (if negative then - int (decimalValue ds) else int (decimalValue ds)),
                    rest))"

definition arrayIndex :: "string \<Rightarrow> nat option" where
  "arrayIndex k =
     (if k \<noteq> [] \<and> list_all isDigit k \<and> (k = ''0'' \<or> take 1 k \<noteq> ''0'')
           \<and> decimalValue k < 4294967295
      then Some (decimalValue k) else None)"

fun insertProperty :: "string \<Rightarrow> jsval \<Rightarrow> (string \<times> jsval) list \<Rightarrow> (string \<times> jsval) list" where
  "insertProperty k v [] = [(k, v)]"
| "insertProperty k v (p # ps) =
     (case arrayIndex k of
        None \<Rightarrow> p # insertProperty k v ps
      | Some i \<Rightarrow>
          (case arrayIndex (fst p) of
             None \<Rightarrow> (k, v) # p # ps
           | Some j \<Rightarrow> if i < j then (k, v) # p # ps else p # insertProperty k v ps))"

definition defineProperty :: "(string \<times> jsval) list \<Rightarrow> string \<times> jsval \<Rightarrow> (string \<times> jsval) list" where
  "defineProperty ps kv =
     (if fst kv \<in> set (map fst ps)
      then map (\<lambda>p. if fst p = fst kv then kv else p) ps
      else insertProperty (fst kv) (snd kv) ps)"

fun parseValue :: "nat \<Rightarrow> string \<Rightarrow> (jsval \<times> string) option"
  and parseElements :: "nat \<Rightarrow> string \<Rightarrow> (jsval list \<times> string) option"
  and parseMembers :: "nat \<Rightarrow> string \<Rightarrow> ((string \<times> jsval) list \<times> string) option" where
  "parseValue 0 s = None"
| "parseValue (Suc n) s =
     (case skipSpace s of
        [] \<Rightarrow> None
      | c # cs \<Rightarrow>
          if c = CHR ''{'' then
            (if take 1 (skipSpace cs) = ''}'' then Some (Obj [], drop 1 (skipSpace cs))
             else map_option (\<lambda>(kvs, rest). (Obj (foldl defineProperty [] kvs), rest))
                    (parseMembers n cs))
          else if c = CHR ''['' then
            (if take 1 (skipSpace cs) = '']'' then Some (Arr [], drop 1 (skipSpace cs))
             else map_option (\<lambda>(vs, rest). (Arr vs, rest)) (parseElements n cs))
          else if c = CHR 0x22 then map_option (\<lambda>(str, rest). (Str str, rest)) (parseChars cs)
          else if take 4 (c # cs) = ''true'' then Some (Bool True, drop 4 (c # cs))
          else if take 5 (c # cs) = ''false'' then Some (Bool False, drop 5 (c # cs))
          else if take 4 (c # cs) = ''null'' then Some (Null, drop 4 (c # cs))
          else parseNumber (c # cs))"
| "parseElements 0 s = None"
| "parseElements (Suc n) s =
     (case parseValue n s of
        None \<Rightarrow> None
      | Some (v, s1) \<Rightarrow>
          (case skipSpace s1 of
             [] \<Rightarrow> None
           | d # s2 \<Rightarrow>
               if d = CHR '']'' then Some ([v], s2)
               else if d = CHR '','' then
                 map_option (\<lambda>(vs, rest). (v # vs, rest)) (parseElements n s2)
               else None))"
| "parseMembers 0 s = None"
| "parseMembers (Suc n) s =
     (case skipSpace s of
        [] \<Rightarrow> None
      | q # s1 \<Rightarrow>
          if q \<noteq> CHR 0x22 then None
          else
            (case parseChars s1 of
               None \<Rightarrow> None
             | Some (k, s2) \<Rightarrow>
                 (case skipSpace s2 of
                    [] \<Rightarrow> None
                  | colon # s3 \<Rightarrow>
                      if colon \<noteq> CHR '':'' then None
                      else
                        (case parseValue n s3 of
                           None \<Rightarrow> None
                         | Some (v, s4) \<Rightarrow>
                             (case skipSpace s4 of
                                [] \<Rightarrow> None
                              | d # s5 \<Rightarrow>
                                  if d = CHR ''}'' then Some ([(k, v)], s5)
                                  else if d = CHR '','' then
                                    map_option (\<lambda>(kvs, rest). ((k, v) # kvs, rest))
                                      (parseMembers n s5)
                                  else None)))))"



section \<open>main: the chain of a delivery\<close>






text \<open>The sender's side: the lower-case hexadecimal encoding of a digest.\<close>

definition hexByte :: "byte \<Rightarrow> string" where
  "hexByte b = [hexDigit (unat b div 16), hexDigit (unat b mod 16)]"

definition hexEncode :: "byte list \<Rightarrow> string" where
  "hexEncode bs = concat (map hexByte bs)"

section \<open>Properties of the dispatcher and the handler\<close>

lemma andThen_Inr [simp]: "andThen (Inr x) f = f x"
  by (simp add: andThen_def)

lemma andThen_Inl [simp]: "andThen (Inl e) f = Inl e"
  by (simp add: andThen_def)

lemma notify_resolves: "\<exists>delivered. notify fetch message = Inr delivered"
  by (cases "fetch (stringify (Obj [(''content'', Str message)]))")
     (auto simp add: notify_def Let_def simp del: stringify.simps)

text \<open>
  C1, evaluated on the code: an authenticated delivery reaches the handler; here the
  event is \<^verbatim>\<open>ping\<close>, the body is \<^verbatim>\<open>{}\<close> and the post to the chat endpoint fails with a
  network error. The notifier resolves to \<^verbatim>\<open>false\<close> and the handler still answers
  202, not the 500 that the claim and the handler's own comment promise.
\<close>

theorem failed_notification_answers_202:
  "notify (\<lambda>posted. NetworkError) ''Unknown event ping'' = Inr False \<and>
   webHookHandler (\<lambda>posted. NetworkError)
       \<lparr>signature_header = None, event_header = Some ''ping'', body = Obj []\<rparr>
     = Inr (Response 202 ''Accepted'',
            [Dispatched ''ping'', Notified ''Unknown event ping''])"
  by (simp add: webHookHandler_def dispatch_def notify_def Let_def)

text \<open>
  C7, evaluated on the code: a star payload with no \<^verbatim>\<open>sender\<close>, and an issue payload
  with no \<^verbatim>\<open>issue\<close>, make the summarizer throw a TypeError; no placeholder text is
  produced.
\<close>

theorem summarizer_throws_on_absent_field:
  "onStar (Obj [(''action'', Str ''created'')]) = Inl TypeError \<and>
   onIssue (Obj [(''action'', Str ''opened'')]) = Inl TypeError"
  by (simp add: onStar_def onIssue_def getProp_def)

text \<open>
  C8: for every event type other than \<^verbatim>\<open>star\<close> and \<^verbatim>\<open>issues\<close>, and every payload,
  the dispatch returns a message (it does not throw), the message is
  \<^verbatim>\<open>Unknown event\<close> followed by the event type, and so the event type occurs in it
  verbatim.
\<close>

theorem dispatch_unknown_event:
  assumes "githubEvent \<notin> {''star'', ''issues''}"
  shows "dispatch githubEvent payload = Inr (''Unknown event '' @ githubEvent) \<and>
         (\<exists>message. dispatch githubEvent payload = Inr message \<and> sublist githubEvent message)"
proof -
  from assms have d: "dispatch githubEvent payload = Inr (''Unknown event '' @ githubEvent)"
    by (simp add: dispatch_def)
  have "sublist githubEvent (''Unknown event '' @ githubEvent)"
    unfolding sublist_def by (intro exI [of _ "''Unknown event ''"] exI [of _ "[]"]) simp
  with d show ?thesis by simp
qed

theorem dispatch_unknown_event_witness:
  "''push'' \<notin> {''star'', ''issues''} \<and>
   dispatch ''push'' (Obj [(''ref'', Str ''refs/heads/main'')]) = Inr ''Unknown event push'' \<and>
   (\<exists>message. dispatch ''push'' (Obj [(''ref'', Str ''refs/heads/main'')]) = Inr message \<and>
      sublist ''push'' message)"
  using dispatch_unknown_event [of "''push''" "Obj [(''ref'', Str ''refs/heads/main'')]"]
  by auto

text \<open>
  C9: the star payload
  \<^verbatim>\<open>{action: "created", sender: {login: "alice"}, repository: {full_name: "org/repo"}}\<close>
  is summarized as exactly \<^verbatim>\<open>User alice created star on org/repo\<close>.
\<close>

theorem onStar_scenario_A:
  "onStar (Obj [(''action'', Str ''created''),
                (''sender'', Obj [(''login'', Str ''alice'')]),
                (''repository'', Obj [(''full_name'', Str ''org/repo'')])])
     = Inr ''User alice created star on org/repo''"
  by (simp add: onStar_def getProp_def)

text \<open>
  C10: when the \<^verbatim>\<open>x-github-event\<close> header is absent, the handler enters the switch
  with the event type \<^verbatim>\<open>unknown\<close>, hands the message \<^verbatim>\<open>Unknown event unknown\<close> to
  the notifier and answers; it does not throw, whatever the payload and the chat
  endpoint's answer.
\<close>

theorem absent_event_header:
  assumes "event_header req = None"
  shows "webHookHandler fetch req
           = Inr (Response 202 ''Accepted'',
                  [Dispatched ''unknown'', Notified ''Unknown event unknown''])"
proof -
  have "dispatch ''unknown'' (body req) = Inr ''Unknown event unknown''"
    by (simp add: dispatch_def)
  moreover obtain delivered where "notify fetch ''Unknown event unknown'' = Inr delivered"
    using notify_resolves by blast
  ultimately show ?thesis
    using assms by (simp add: webHookHandler_def Let_def)
qed

theorem absent_event_header_witness:
  "event_header \<lparr>signature_header = Some ''sha256=00'', event_header = None,
                 body = Obj [(''zen'', Str ''Keep it simple'')]\<rparr> = None \<and>
   webHookHandler (\<lambda>posted. HttpResponse 204)
       \<lparr>signature_header = Some ''sha256=00'', event_header = None,
        body = Obj [(''zen'', Str ''Keep it simple'')]\<rparr>
     = Inr (Response 202 ''Accepted'',
            [Dispatched ''unknown'', Notified ''Unknown event unknown''])"
  using absent_event_header
    [of "\<lparr>signature_header = Some ''sha256=00'', event_header = None,
          body = Obj [(''zen'', Str ''Keep it simple'')]\<rparr>" "\<lambda>posted. HttpResponse 204"]
  by simp

section \<open>Properties of signature verification\<close>

subsection \<open>Hexadecimal digits and the decoding loop\<close>

lemma lt16_cases:
  "(n::nat) < 16 \<Longrightarrow> n \<in> {0, 1, 2, 3, 4, 5, 6, 7, 8, 9, 10, 11, 12, 13, 14, 15}"
  by simp arith

lemma hexValue_hexDigit: "n < 16 \<Longrightarrow> hexValue (hexDigit n) = Some n"
  by (drule lt16_cases) (auto simp add: hexValue_def hexDigit_def)

lemma hexDigit_plain:
  "n < 16 \<Longrightarrow> \<not> isWhiteSpace (hexDigit n) \<and> hexDigit n \<noteq> CHR ''+'' \<and> hexDigit n \<noteq> CHR ''-''
     \<and> hexDigit n \<noteq> CHR ''x'' \<and> hexDigit n \<noteq> CHR ''X'' \<and> hexDigit n \<noteq> CHR ''=''"
  by (drule lt16_cases) (auto simp add: isWhiteSpace_def hexDigit_def)

lemma parseInt16_two_digits:
  assumes "h < 16" "l < 16"
  shows "parseInt16 [hexDigit h, hexDigit l] = Some (int (16 * h + l))"
  using hexDigit_plain [OF assms(1)] hexDigit_plain [OF assms(2)]
  by (simp add: parseInt16_def Let_def hexValue_hexDigit assms)

lemma toUint8_hexByte: "toUint8 (parseInt16 (hexByte b)) = b"
proof -
  have "unat b div 16 < 16"
    using unsigned_less [of b, where 'a = nat] by simp
  then have "parseInt16 (hexByte b) = Some (int (16 * (unat b div 16) + unat b mod 16))"
    unfolding hexByte_def by (rule parseInt16_two_digits) simp
  then show ?thesis by (simp add: toUint8_def)
qed

lemma split_without_separator: "sep \<notin> set s \<Longrightarrow> split sep s = [s]"
  by (induction s) auto

lemma split_at_first_separator:
  "sep \<notin> set p \<Longrightarrow> split sep (p @ sep # r) = p # split sep r"
  by (induction p) auto

lemma hexEncode_plain: "CHR ''='' \<notin> set (hexEncode bs)"
proof -
  have "CHR ''='' \<notin> set (hexByte b)" for b
  proof -
    have "unat b div 16 < 16"
      using unsigned_less [of b, where 'a = nat] by simp
    moreover have "unat b mod 16 < 16" by simp
    ultimately show ?thesis
      using hexDigit_plain [of "unat b div 16"] hexDigit_plain [of "unat b mod 16"]
      by (auto simp add: hexByte_def)
  qed
  then show ?thesis by (auto simp add: hexEncode_def)
qed

lemma length_hexEncode: "length (hexEncode bs) = 2 * length bs"
  by (induction bs) (simp_all add: hexEncode_def hexByte_def)

lemma hexEncode_Cons: "hexEncode (b # bs) = hexByte b @ hexEncode bs"
  by (simp add: hexEncode_def)

lemma length_hexToBytesLoop: "length (hexToBytesLoop hex i index bytes) = length bytes"
proof (induction hex i index bytes rule: hexToBytesLoop.induct)
  case (1 hex i index bytes)
  show ?case
  proof (cases "i < length hex")
    case True
    with 1 show ?thesis by (simp add: hexToBytesLoop.simps [of hex i] Let_def)
  next
    case False
    then show ?thesis by (simp add: hexToBytesLoop.simps [of hex i])
  qed
qed

lemma hexToBytesLoop_decodes:
  assumes "drop i hex = hexEncode bs @ rest"
    and "length pre = index" and "length zs = length bs"
  shows "hexToBytesLoop hex i index (pre @ zs @ post)
           = hexToBytesLoop hex (i + 2 * length bs) (index + length bs) (pre @ bs @ post)"
  using assms
proof (induction bs arbitrary: i index pre zs)
  case Nil
  then show ?case by simp
next
  case (Cons b bs)
  from Cons.prems(3) obtain z zs' where zs: "zs = z # zs'" and len: "length zs' = length bs"
    by (cases zs) auto
  from Cons.prems(1) have d: "drop i hex = hexByte b @ hexEncode bs @ rest"
    by (simp add: hexEncode_Cons)
  then have lt: "i < length hex"
    by (cases "i < length hex") (auto simp add: hexByte_def)
  from d have chunk: "take 2 (drop i hex) = hexByte b"
    by (simp add: hexByte_def)
  have "drop (i + 2) hex = drop 2 (drop i hex)"
    by (simp add: add.commute)
  with d have next_: "drop (i + 2) hex = hexEncode bs @ rest"
    by (simp add: hexByte_def)
  have upd: "(pre @ zs @ post)[index := b] = (pre @ [b]) @ zs' @ post"
    using Cons.prems(2) zs by (simp add: list_update_append)
  have "hexToBytesLoop hex i index (pre @ zs @ post)
          = hexToBytesLoop hex (i + 2) (index + 1) ((pre @ [b]) @ zs' @ post)"
    using lt chunk upd
    by (simp add: hexToBytesLoop.simps [of hex i] Let_def toUint8_hexByte del: append_assoc)
  also have "\<dots> = hexToBytesLoop hex (i + 2 + 2 * length bs) (index + 1 + length bs)
                     ((pre @ [b]) @ bs @ post)"
    by (rule Cons.IH [OF next_ _ len]) (simp add: Cons.prems(2))
  finally show ?case by (simp add: add.assoc)
qed

lemma hexToBytesLoop_stop:
  "length hex \<le> i \<Longrightarrow> hexToBytesLoop hex i index bytes = bytes"
  by (simp add: hexToBytesLoop.simps [of hex i])

lemma hexToBytesLoop_step:
  "i < length hex \<Longrightarrow> hexToBytesLoop hex i index bytes
     = hexToBytesLoop hex (i + 2) (index + 1)
         (bytes[index := toUint8 (parseInt16 (take 2 (drop i hex)))])"
  by (simp add: hexToBytesLoop.simps [of hex i] Let_def)

lemma hexToBytes_hexEncode: "hexToBytes (Some (hexEncode bs)) = Inr bs"
proof -
  have "hexToBytesLoop (hexEncode bs) 0 0 ([] @ replicate (length bs) 0 @ [])
          = hexToBytesLoop (hexEncode bs) (0 + 2 * length bs) (0 + length bs) ([] @ bs @ [])"
    by (rule hexToBytesLoop_decodes [where rest = "[]"]) simp_all
  also have "\<dots> = bs"
    by (simp add: hexToBytesLoop_stop length_hexEncode)
  finally show ?thesis
    by (simp add: hexToBytes_def Let_def length_hexEncode)
qed

lemma hexToBytes_trailing_char: "hexToBytes (Some (hexEncode bs @ [c])) = Inr bs"
proof -
  let ?hex = "hexEncode bs @ [c]"
  have "hexToBytesLoop ?hex 0 0 ([] @ replicate (length bs) 0 @ [])
          = hexToBytesLoop ?hex (0 + 2 * length bs) (0 + length bs) ([] @ bs @ [])"
    by (rule hexToBytesLoop_decodes [where rest = "[c]"]) simp_all
  also have "\<dots> = hexToBytesLoop ?hex (2 * length bs + 2) (length bs + 1) bs"
    by (simp add: hexToBytesLoop_step length_hexEncode list_update_beyond)
  also have "\<dots> = bs"
    by (simp add: hexToBytesLoop_stop length_hexEncode)
  finally show ?thesis
    by (simp add: hexToBytes_def Let_def length_hexEncode)
qed

lemma length_hexToBytes: "hexToBytes (Some h) = Inr bs \<Longrightarrow> length bs = length h div 2"
  by (auto simp add: hexToBytes_def Let_def length_hexToBytesLoop)

lemma length_digest: "length (digest s) = 32"
  by (cases s rule: digest.cases) (simp add: bytesOfWord_def)

lemma length_hmac_sha256: "length (hmac_sha256 key msg) = 32"
  by (simp add: hmac_sha256_def sha256_def Let_def length_digest)

lemma encode_empty: "encode (Some s) = [] \<longleftrightarrow> s = []"
  by (cases s) (auto simp add: encode_def encodeChar_def Let_def)

subsection \<open>What verifySignature accepts\<close>

lemma split_signature_header:
  "split CHR ''='' (''sha256='' @ hexEncode mac) = [''sha256'', hexEncode mac]"
proof -
  have "split CHR ''='' (hexEncode mac) = [hexEncode mac]"
    by (rule split_without_separator) (rule hexEncode_plain)
  moreover have "split CHR ''='' (''sha256'' @ CHR ''='' # hexEncode mac)
                   = ''sha256'' # split CHR ''='' (hexEncode mac)"
    by (rule split_at_first_separator) simp
  ultimately show ?thesis by simp
qed

lemma verifySignature_sound_header:
  assumes "secret \<noteq> []" and "c \<noteq> CHR ''=''"
  shows "verifySignature secret
           (''sha256='' @ hexEncode (hmac_sha256 (encode (Some secret)) (encode payload)) @ [c])
           payload"
proof -
  let ?mac = "hmac_sha256 (encode (Some secret)) (encode payload)"
  have "CHR ''='' \<notin> set (hexEncode ?mac @ [c])"
    using assms(2) hexEncode_plain [of ?mac] by auto
  then have "split CHR ''='' (hexEncode ?mac @ [c]) = [hexEncode ?mac @ [c]]"
    by (rule split_without_separator)
  moreover have "split CHR ''='' (''sha256'' @ CHR ''='' # hexEncode ?mac @ [c])
                   = ''sha256'' # split CHR ''='' (hexEncode ?mac @ [c])"
    by (rule split_at_first_separator) simp
  ultimately have parts: "split CHR ''='' (''sha256='' @ hexEncode ?mac @ [c])
                   = [''sha256'', hexEncode ?mac @ [c]]"
    by simp
  have key: "importKey (encode (Some secret)) = Inr (encode (Some secret))"
    using assms(1) by (simp add: importKey_def encode_empty)
  show ?thesis
    unfolding verifySignature_def verifySignatureTry_def Let_def parts
    by (simp add: element_def key hexToBytes_trailing_char subtleVerify_def)
qed

lemma verifySignature_iff:
  "verifySignature secret header payload \<longleftrightarrow>
     secret \<noteq> [] \<and>
     (\<exists>sigHex. element (split CHR ''='' header) 1 = Some sigHex \<and>
        hexToBytes (Some sigHex)
          = Inr (hmac_sha256 (encode (Some secret)) (encode payload)))"
proof (cases "secret = []")
  case True
  then show ?thesis
    by (simp add: verifySignature_def verifySignatureTry_def Let_def importKey_def encode_def)
next
  case False
  then have key: "importKey (encode (Some secret)) = Inr (encode (Some secret))"
    by (simp add: importKey_def encode_empty)
  show ?thesis
  proof (cases "element (split CHR ''='' header) 1")
    case None
    then show ?thesis
      using False
      by (simp add: verifySignature_def verifySignatureTry_def Let_def key hexToBytes_def)
  next
    case (Some sigHex)
    then show ?thesis
      using False
      by (auto simp add: verifySignature_def verifySignatureTry_def Let_def key hexToBytes_def
            subtleVerify_def)
  qed
qed

lemma verifySignature_without_separator:
  assumes "CHR ''='' \<notin> set header"
  shows "\<not> verifySignature secret header payload"
  using split_without_separator [OF assms]
  by (simp add: verifySignature_iff element_def)

lemma verifySignature_wrong_length:
  assumes "element (split CHR ''='' header) 1 = Some sigHex" and "length sigHex div 2 \<noteq> 32"
  shows "\<not> verifySignature secret header payload"
proof
  assume "verifySignature secret header payload"
  with assms(1) have "hexToBytes (Some sigHex)
      = Inr (hmac_sha256 (encode (Some secret)) (encode payload))"
    by (simp add: verifySignature_iff)
  then have "length (hmac_sha256 (encode (Some secret)) (encode payload)) = length sigHex div 2"
    by (rule length_hexToBytes)
  with assms(2) show False
    by (simp add: length_hmac_sha256)
qed

lemma verifySignature_catches:
  "verifySignatureTry secret header payload = Inl e \<Longrightarrow> \<not> verifySignature secret header payload"
  by (simp add: verifySignature_def)

text \<open>
  The example of GitHub's documentation on validating deliveries, evaluated on the model:
  the secret \<^verbatim>\<open>It's a Secret to Everybody\<close> and the payload \<^verbatim>\<open>Hello, World!\<close> give
  the signature
  \<^verbatim>\<open>sha256=757107ea0eb2509fc211221cce984b8a37570b6d7586c22c46f4379c8b043e17\<close>.
  The inner and the outer hash of the HMAC are evaluated separately.
\<close>

lemma github_example_key_length: "length (encode (Some ''It's a Secret to Everybody'')) = 26"
  by code_simp

lemma github_example_inner:
  "sha256 (map (\<lambda>b. b XOR 0x36) (encode (Some ''It's a Secret to Everybody'') @ replicate (64 - 26) 0)
            @ encode (Some ''Hello, World!''))
     = [0x4b, 0x01, 0x73, 0x0e, 0x33, 0xd2, 0x33, 0xc9, 0x4b, 0x71, 0x0a, 0xba, 0x83, 0x9f, 0x95, 0xb0,
        0xe9, 0xc2, 0x17, 0x37, 0x50, 0x3f, 0x79, 0x67, 0x82, 0xf2, 0xc2, 0xff, 0x5a, 0xd5, 0xd8, 0x02]"
  by code_simp

lemma github_example_outer:
  "sha256 (map (\<lambda>b. b XOR 0x5c) (encode (Some ''It's a Secret to Everybody'') @ replicate (64 - 26) 0)
            @ [0x4b, 0x01, 0x73, 0x0e, 0x33, 0xd2, 0x33, 0xc9, 0x4b, 0x71, 0x0a, 0xba, 0x83, 0x9f, 0x95, 0xb0,
               0xe9, 0xc2, 0x17, 0x37, 0x50, 0x3f, 0x79, 0x67, 0x82, 0xf2, 0xc2, 0xff, 0x5a, 0xd5, 0xd8, 0x02])
     = [0x75, 0x71, 0x07, 0xea, 0x0e, 0xb2, 0x50, 0x9f, 0xc2, 0x11, 0x22, 0x1c, 0xce, 0x98, 0x4b, 0x8a,
        0x37, 0x57, 0x0b, 0x6d, 0x75, 0x86, 0xc2, 0x2c, 0x46, 0xf4, 0x37, 0x9c, 0x8b, 0x04, 0x3e, 0x17]"
  by code_simp

lemma hmac_github_example:
  "hmac_sha256 (encode (Some ''It's a Secret to Everybody'')) (encode (Some ''Hello, World!''))
     = [0x75, 0x71, 0x07, 0xea, 0x0e, 0xb2, 0x50, 0x9f, 0xc2, 0x11, 0x22, 0x1c, 0xce, 0x98, 0x4b, 0x8a,
        0x37, 0x57, 0x0b, 0x6d, 0x75, 0x86, 0xc2, 0x2c, 0x46, 0xf4, 0x37, 0x9c, 0x8b, 0x04, 0x3e, 0x17]"
proof -
  have cond: "(64 < length (encode (Some ''It's a Secret to Everybody''))) = False"
    by (simp add: github_example_key_length)
  show ?thesis
    unfolding hmac_sha256_def Let_def cond if_False
    unfolding github_example_key_length github_example_inner github_example_outer
    by (rule refl)
qed

lemma hexEncode_github_example:
  "hexEncode
     [0x75, 0x71, 0x07, 0xea, 0x0e, 0xb2, 0x50, 0x9f, 0xc2, 0x11, 0x22, 0x1c, 0xce, 0x98, 0x4b, 0x8a,
      0x37, 0x57, 0x0b, 0x6d, 0x75, 0x86, 0xc2, 0x2c, 0x46, 0xf4, 0x37, 0x9c, 0x8b, 0x04, 0x3e, 0x17]
     = ''757107ea0eb2509fc211221cce984b8a37570b6d7586c22c46f4379c8b043e17''"
  by code_simp

text \<open>
  C3, as amended: for every secret that is not empty and every body, verifying with the
  header made of the prefix \<^verbatim>\<open>sha256=\<close> and the hexadecimal encoding of
  HMAC-SHA256(secret, body) returns true.
\<close>

theorem verifySignature_correct_header:
  assumes "secret \<noteq> []"
  shows "verifySignature secret
           (''sha256='' @ hexEncode (hmac_sha256 (encode (Some secret)) (encode (Some payload))))
           (Some payload)"
proof -
  have key: "importKey (encode (Some secret)) = Inr (encode (Some secret))"
    using assms by (simp add: importKey_def encode_empty)
  show ?thesis
    unfolding verifySignature_def verifySignatureTry_def Let_def split_signature_header
    by (simp add: element_def key hexToBytes_hexEncode subtleVerify_def)
qed

theorem verifySignature_correct_header_witness:
  "''It's a Secret to Everybody'' \<noteq> [] \<and>
   verifySignature ''It's a Secret to Everybody''
     ''sha256=757107ea0eb2509fc211221cce984b8a37570b6d7586c22c46f4379c8b043e17''
     (Some ''Hello, World!'')"
  using verifySignature_correct_header [of "''It's a Secret to Everybody''" "''Hello, World!''"]
  by (simp add: hmac_github_example hexEncode_github_example)

text \<open>
  C3 as stated, for every secret, fails at the empty secret: importing a key of length
  zero throws, the \<^verbatim>\<open>catch\<close> answers false, also for the correctly constructed header.
\<close>

theorem verifySignature_empty_secret:
  "\<not> verifySignature []
       (''sha256='' @ hexEncode (hmac_sha256 (encode (Some [])) (encode (Some ''{}''))))
       (Some ''{}'')"
  by (simp add: verifySignature_def verifySignatureTry_def Let_def importKey_def encode_def)

text \<open>
  C4, as amended: no exception escapes \<^verbatim>\<open>verifySignature\<close> (whatever its
  \<^verbatim>\<open>try\<close> block throws, the result is false); a header with no \<^verbatim>\<open>=\<close> is
  rejected; and a header whose digest portion, the text after the first \<^verbatim>\<open>=\<close>, is
  neither 64 nor 65 characters long is rejected.
\<close>

theorem verifySignature_malformed_header:
  "(verifySignatureTry secret header payload = Inl e
      \<longrightarrow> \<not> verifySignature secret header payload) \<and>
   (CHR ''='' \<notin> set header \<longrightarrow> \<not> verifySignature secret header payload) \<and>
   (element (split CHR ''='' header) 1 = Some sigHex \<and> length sigHex \<noteq> 64 \<and> length sigHex \<noteq> 65
      \<longrightarrow> \<not> verifySignature secret header payload)"
proof (intro conjI impI)
  assume "verifySignatureTry secret header payload = Inl e"
  then show "\<not> verifySignature secret header payload" by (rule verifySignature_catches)
next
  assume "CHR ''='' \<notin> set header"
  then show "\<not> verifySignature secret header payload" by (rule verifySignature_without_separator)
next
  assume a: "element (split CHR ''='' header) 1 = Some sigHex \<and> length sigHex \<noteq> 64
               \<and> length sigHex \<noteq> 65"
  then have "length sigHex div 2 \<noteq> 32" by arith
  with a show "\<not> verifySignature secret header payload"
    by (blast intro: verifySignature_wrong_length [THEN notE])
qed

theorem verifySignature_malformed_header_witness:
  "verifySignatureTry ''s3cr3t'' ''sha256'' (Some ''{}'') = Inl TypeError \<and>
   CHR ''='' \<notin> set ''sha256'' \<and>
   \<not> verifySignature ''s3cr3t'' ''sha256'' (Some ''{}'') \<and>
   element (split CHR ''='' ''sha256=abcd'') 1 = Some ''abcd'' \<and>
   length ''abcd'' \<noteq> 64 \<and> length ''abcd'' \<noteq> 65 \<and>
   \<not> verifySignature ''s3cr3t'' ''sha256=abcd'' (Some ''{}'')"
  using verifySignature_malformed_header [of "''s3cr3t''" "''sha256''" "Some ''{}''" TypeError "[]"]
    verifySignature_malformed_header [of "''s3cr3t''" "''sha256=abcd''" "Some ''{}''" TypeError "''abcd''"]
  by (simp add: verifySignatureTry_def Let_def element_def importKey_def encode_def
        encodeChar_def hexToBytes_def)

text \<open>
  C4 as stated fails, for the secret and payload of the example above. The correct 64
  digits followed by the character \<^verbatim>\<open>z\<close> make a digest portion of the wrong length
  (65) that ends in a character that is no hexadecimal digit, and the header is accepted:
  \<^verbatim>\<open>hexToBytes\<close> sizes the array by the length rounded down, so the store of the 33rd
  chunk is dropped. A digest portion of the right length in which the \<^verbatim>\<open>0\<close> of
  \<^verbatim>\<open>07\<close>, \<^verbatim>\<open>0e\<close>, \<^verbatim>\<open>0b\<close> and \<^verbatim>\<open>04\<close> is replaced by \<^verbatim>\<open>+\<close> is accepted too:
  \<^verbatim>\<open>parseInt\<close> reads the \<^verbatim>\<open>+\<close> as a sign.
\<close>

theorem verifySignature_accepts_malformed_digest:
  "verifySignature ''It's a Secret to Everybody''
     ''sha256=757107ea0eb2509fc211221cce984b8a37570b6d7586c22c46f4379c8b043e17z''
     (Some ''Hello, World!'') \<and>
   length ''757107ea0eb2509fc211221cce984b8a37570b6d7586c22c46f4379c8b043e17z'' = 65 \<and>
   hexValue CHR ''z'' = None \<and>
   verifySignature ''It's a Secret to Everybody''
     ''sha256=7571+7ea+eb2509fc211221cce984b8a3757+b6d7586c22c46f4379c8b+43e17''
     (Some ''Hello, World!'') \<and>
   hexValue CHR ''+'' = None"
proof (intro conjI)
  show "verifySignature ''It's a Secret to Everybody''
     ''sha256=757107ea0eb2509fc211221cce984b8a37570b6d7586c22c46f4379c8b043e17z''
     (Some ''Hello, World!'')"
    using verifySignature_sound_header
      [of "''It's a Secret to Everybody''" "CHR ''z''" "Some ''Hello, World!''"]
    by (simp add: hmac_github_example hexEncode_github_example)
  have parts: "element (split CHR ''=''
       ''sha256=7571+7ea+eb2509fc211221cce984b8a3757+b6d7586c22c46f4379c8b+43e17'') 1
     = Some ''7571+7ea+eb2509fc211221cce984b8a3757+b6d7586c22c46f4379c8b+43e17''"
    by code_simp
  have bytes:
    "hexToBytes (Some ''7571+7ea+eb2509fc211221cce984b8a3757+b6d7586c22c46f4379c8b+43e17'')
       = Inr [0x75, 0x71, 0x07, 0xea, 0x0e, 0xb2, 0x50, 0x9f, 0xc2, 0x11, 0x22, 0x1c, 0xce, 0x98,
              0x4b, 0x8a, 0x37, 0x57, 0x0b, 0x6d, 0x75, 0x86, 0xc2, 0x2c, 0x46, 0xf4, 0x37, 0x9c,
              0x8b, 0x04, 0x3e, 0x17]"
    by code_simp
  show "verifySignature ''It's a Secret to Everybody''
     ''sha256=7571+7ea+eb2509fc211221cce984b8a3757+b6d7586c22c46f4379c8b+43e17''
     (Some ''Hello, World!'')"
    unfolding verifySignature_iff parts
    by (simp add: bytes hmac_github_example)
qed (simp_all add: hexValue_def)

subsection \<open>The middleware and the chain\<close>












end
